theory Spec2Isabelle
  imports Complex_Main
begin

section \<open>Wind-turbine proximity notebook (windfarm.ipynb)\<close>

text \<open>
  The notebook is a straight-line script over two GeoDataFrames. A frame is modelled by
  its coordinate reference system and its rows in order; a row carries the feature's
  attribute columns, its geometry and the columns the script adds later.

  Idealisations. A float64 cell holds a real number or NaN: \<open>None\<close> is NaN, and the
  finite values are taken as reals (rounding is not modelled). The two library functions
  that work on coordinates, the projection between two reference systems (pyproj, behind
  \<open>to_crs\<close>) and the centroid of a polygon (GEOS, behind \<open>.centroid\<close>), are parameters
  \<open>tf\<close> and \<open>cen\<close> of the model. The literals \<open>5\<close> and \<open>2\<close> of the script are the
  parameters \<open>thr\<close> and \<open>nb\<close> of \<open>run\<close>; the script itself is \<open>notebook\<close>.
  The inputs of \<open>run\<close> are the two frames as \<open>read_file\<close> returns them; reading the
  files, drawing the histogram and saving the map are not modelled.

  Library behaviour is that of the stack the notebook was run on (Python 3.11 with
  pandas 2, geopandas on shapely 2): reductions of an empty or all-NaN series give NaN, the
  distance to an empty geometry is NaN, and a comparison of a geometry column with a number
  raises TypeError. A turbine geometry is a coordinate pair, as the marker loop requires
  (\<open>row.geometry.x\<close>).
\<close>

subsection \<open>Data\<close>

type_synonym point = "real \<times> real"

text \<open>A polygon as GeoJSON has it: the exterior ring followed by the holes.\<close>

type_synonym polygon = "point list list"

type_synonym float64 = "real option"

text \<open>A feature geometry is a single part (Point, Polygon) or a collection of parts
  (MultiPoint, MultiPolygon).\<close>

datatype 'p geom = Single 'p | Multi "'p list"

fun parts :: "'p geom \<Rightarrow> 'p list" where
  "parts (Single p) = [p]"
| "parts (Multi ps) = ps"

record ('a, 'g) row =
  attrs :: 'a
  geometry :: 'g

text \<open>The centroid column holds points; the centroid of an empty polygon is the empty
  point, \<open>None\<close>.\<close>

record ('a, 'g) city_row = "('a, 'g) row" +
  centroid :: "point option"

record ('a, 'g) turbine_row = "('a, 'g) row" +
  nearest_dist :: float64

record 'r gdf =
  crs :: "nat option"
  rows :: "'r list"

datatype error = ValueError | TypeError

datatype color = Red | Orange

record marker =
  location :: point
  color :: color
  popup :: float64

record summary =
  count :: nat
  average :: float64
  minimum :: float64
  maximum :: float64

subsection \<open>Library operations the script calls\<close>

text \<open>Comparison of a float64 cell with a literal: every comparison with NaN is false.\<close>

definition fle :: "float64 \<Rightarrow> real \<Rightarrow> bool" where
  "fle d c = (case d of None \<Rightarrow> False | Some v \<Rightarrow> v \<le> c)"

definition flt :: "float64 \<Rightarrow> real \<Rightarrow> bool" where
  "flt d c = (case d of None \<Rightarrow> False | Some v \<Rightarrow> v < c)"

text \<open>Division of a float64 by a literal: NaN stays NaN.\<close>

definition fdiv :: "float64 \<Rightarrow> real \<Rightarrow> float64" where
  "fdiv d c = (case d of None \<Rightarrow> None | Some v \<Rightarrow> Some (v / c))"

text \<open>\<open>Series.min()\<close>, \<open>Series.max()\<close> and \<open>Series.mean()\<close> skip NaN cells and give NaN
  when nothing is left; none of them raises on an empty series.\<close>

fun dropna :: "float64 list \<Rightarrow> real list" where
  "dropna [] = []"
| "dropna (None # s) = dropna s"
| "dropna (Some v # s) = v # dropna s"

definition series_min :: "float64 list \<Rightarrow> float64" where
  "series_min s = (case dropna s of [] \<Rightarrow> None | v # vs \<Rightarrow> Some (fold min vs v))"

definition series_max :: "float64 list \<Rightarrow> float64" where
  "series_max s = (case dropna s of [] \<Rightarrow> None | v # vs \<Rightarrow> Some (fold max vs v))"

definition series_mean :: "float64 list \<Rightarrow> float64" where
  "series_mean s =
     (case dropna s of [] \<Rightarrow> None
      | v # vs \<Rightarrow> Some (sum_list (v # vs) / real (length (v # vs))))"

text \<open>\<open>GeoDataFrame.explode(index_parts=False)\<close>: one row per part of the geometry, the
  other columns repeated, in order (a collection without parts leaves no row). The script
  explodes both files as it reads them.\<close>

definition explode :: "('a, 'p geom) row gdf \<Rightarrow> ('a, 'p) row gdf" where
  "explode df =
     \<lparr>crs = crs df,
      rows = concat (map (\<lambda>r. map (\<lambda>p. \<lparr>attrs = attrs r, geometry = p\<rparr>)
                                    (parts (geometry r))) (rows df))\<rparr>"

text \<open>\<open>GeoDataFrame.to_crs(epsg=...)\<close>: raises ValueError on a frame without a reference
  system; otherwise the geometry column is transformed and every other column is kept.\<close>

definition to_crs ::
  "(nat \<Rightarrow> nat \<Rightarrow> 'g \<Rightarrow> 'g) \<Rightarrow> nat \<Rightarrow> ('a, 'g, 'z) row_scheme gdf
     \<Rightarrow> error + ('a, 'g, 'z) row_scheme gdf" where
  "to_crs tr epsg df =
     (case crs df of
        None \<Rightarrow> Inl ValueError
      | Some src \<Rightarrow>
          Inr \<lparr>crs = Some epsg,
               rows = map (\<lambda>r. r\<lparr>geometry := tr src epsg (geometry r)\<rparr>) (rows df)\<rparr>)"

text \<open>A polygon is transformed vertex by vertex.\<close>

definition tf_polygon :: "(nat \<Rightarrow> nat \<Rightarrow> point \<Rightarrow> point) \<Rightarrow> nat \<Rightarrow> nat \<Rightarrow> polygon \<Rightarrow> polygon" where
  "tf_polygon tf src dst poly = map (map (tf src dst)) poly"

text \<open>A polygon is empty (POLYGON EMPTY) when its exterior ring has no vertex.\<close>

definition polygon_empty :: "polygon \<Rightarrow> bool" where
  "polygon_empty poly = (case poly of [] \<Rightarrow> True | shell # holes \<Rightarrow> shell = [])"

text \<open>\<open>.centroid\<close> of one polygon: the empty point for an empty polygon, the point that
  GEOS computes otherwise.\<close>

definition centroid_of :: "(polygon \<Rightarrow> point) \<Rightarrow> polygon \<Rightarrow> point option" where
  "centroid_of cen poly = (if polygon_empty poly then None else Some (cen poly))"

text \<open>The planar distance of two points.\<close>

definition distance :: "point \<Rightarrow> point \<Rightarrow> real" where
  "distance p q = sqrt ((fst p - fst q)\<^sup>2 + (snd p - snd q)\<^sup>2)"

text \<open>One cell of \<open>cities['centroid'].distance(x)\<close>: NaN when the centroid is the empty
  point.\<close>

definition distance_to :: "point option \<Rightarrow> point \<Rightarrow> float64" where
  "distance_to c x = (case c of None \<Rightarrow> None | Some p \<Rightarrow> Some (distance p x))"

subsection \<open>The script\<close>

text \<open>\<open>cities['centroid'] = cities.geometry.centroid\<close>\<close>

definition with_centroid ::
  "(polygon \<Rightarrow> point) \<Rightarrow> ('b, polygon) row gdf \<Rightarrow> ('b, polygon) city_row gdf" where
  "with_centroid cen df =
     \<lparr>crs = crs df,
      rows = map (\<lambda>r. \<lparr>attrs = attrs r, geometry = geometry r,
                        centroid = centroid_of cen (geometry r)\<rparr>) (rows df)\<rparr>"

text \<open>\<open>lambda x: cities['centroid'].distance(x).min() / 1000\<close>\<close>

definition nearest_km :: "point option list \<Rightarrow> point \<Rightarrow> float64" where
  "nearest_km cents x = fdiv (series_min (map (\<lambda>c. distance_to c x) cents)) 1000"

text \<open>\<open>turbines['nearest_dist'] = turbines.geometry.apply(...)\<close>\<close>

definition with_nearest_dist ::
  "('b, polygon) city_row gdf \<Rightarrow> ('a, point) row gdf \<Rightarrow> ('a, point) turbine_row gdf" where
  "with_nearest_dist cs df =
     \<lparr>crs = crs df,
      rows = map (\<lambda>r. \<lparr>attrs = attrs r, geometry = geometry r,
                        nearest_dist = nearest_km (map centroid (rows cs)) (geometry r)\<rparr>)
                 (rows df)\<rparr>"

text \<open>\<open>turbines[turbines['nearest_dist'] <= 5]\<close>, with the literal as \<open>thr\<close>. On a frame
  without rows \<open>apply\<close> has returned a geometry column instead of a float column, and
  the comparison raises TypeError.\<close>

definition retained ::
  "real \<Rightarrow> ('a, point) turbine_row gdf \<Rightarrow> error + ('a, point) turbine_row gdf" where
  "retained thr df =
     (if rows df = [] then Inl TypeError
      else Inr (df\<lparr>rows := filter (\<lambda>r. fle (nearest_dist r) thr) (rows df)\<rparr>))"

text \<open>The body of the marker loop: \<open>if dist < 2: 'red' else: 'orange'\<close>, with the literal
  as \<open>nb\<close>; the marker sits at \<open>[row.geometry.y, row.geometry.x]\<close>.\<close>

definition marker_color :: "real \<Rightarrow> float64 \<Rightarrow> color" where
  "marker_color nb d = (if flt d nb then Red else Orange)"

definition markers :: "real \<Rightarrow> ('a, point) turbine_row gdf \<Rightarrow> marker list" where
  "markers nb df =
     map (\<lambda>r. \<lparr>location = (snd (geometry r), fst (geometry r)),
                 color = marker_color nb (nearest_dist r),
                 popup = nearest_dist r\<rparr>) (rows df)"

text \<open>The four printed lines of the last cell.\<close>

definition summary_of :: "('a, point) turbine_row gdf \<Rightarrow> summary" where
  "summary_of df =
     \<lparr>count = length (rows df),
      average = series_mean (map nearest_dist (rows df)),
      minimum = series_min (map nearest_dist (rows df)),
      maximum = series_max (map nearest_dist (rows df))\<rparr>"

text \<open>The variables of the notebook after the last cell.\<close>

record ('a, 'b) state =
  turbines :: "('a, point) turbine_row gdf"
  cities :: "('b, polygon) city_row gdf"
  close_turbines :: "('a, point) turbine_row gdf"
  folium_map :: "marker list"
  printed :: summary

definition run ::
  "real \<Rightarrow> real \<Rightarrow> (nat \<Rightarrow> nat \<Rightarrow> point \<Rightarrow> point) \<Rightarrow> (polygon \<Rightarrow> point)
     \<Rightarrow> ('a, point geom) row gdf \<Rightarrow> ('b, polygon geom) row gdf \<Rightarrow> error + ('a, 'b) state" where
  "run thr nb tf cen turbines_file cities_file =
     (case to_crs tf 3857 (explode turbines_file) of
        Inl e \<Rightarrow> Inl e
      | Inr ts \<Rightarrow>
     (case to_crs (tf_polygon tf) 3857 (explode cities_file) of
        Inl e \<Rightarrow> Inl e
      | Inr cs0 \<Rightarrow>
     (let cs = with_centroid cen cs0;
          ts' = with_nearest_dist cs ts
      in case retained thr ts' of
           Inl e \<Rightarrow> Inl e
         | Inr close0 \<Rightarrow>
        (case to_crs tf 4326 close0 of
           Inl e \<Rightarrow> Inl e
         | Inr close \<Rightarrow>
             Inr \<lparr>turbines = ts', cities = cs, close_turbines = close,
                  folium_map = markers nb close, printed = summary_of close\<rparr>))))"

definition notebook ::
  "(nat \<Rightarrow> nat \<Rightarrow> point \<Rightarrow> point) \<Rightarrow> (polygon \<Rightarrow> point)
     \<Rightarrow> ('a, point geom) row gdf \<Rightarrow> ('b, polygon geom) row gdf \<Rightarrow> error + ('a, 'b) state" where
  "notebook = run 5 2"

subsection \<open>Vocabulary for the statements\<close>

text \<open>All single parts of a frame's geometries, in row order: the points of the turbine
  file, the polygons of the district file.\<close>

definition all_parts :: "('a, 'p geom, 'z) row_scheme gdf \<Rightarrow> 'p list" where
  "all_parts df = concat (map (\<lambda>r. parts (geometry r)) (rows df))"

subsection \<open>A worked example\<close>

text \<open>
  Stand-ins for the two library functions, and small inputs. \<open>scale_tf\<close> takes a
  degree to one kilometre, so that planar coordinates are metres; \<open>ring_mean\<close> is the
  mean of the vertices of the exterior ring, which is the centroid of a square. The district
  of \<open>ex_cities\<close> is the square with planar corners (0,0), (0,2), (2,2), (2,0) and
  centroid (1,1); the turbines lie 5, 1, 2 and 7 km north of the centroid, the last two as
  the two points of one MultiPoint feature. \<open>ex_two_cities\<close> adds a second district,
  a square with centroid (1,6001), 6 km north of the first; \<open>ex_islands\<close> is one district
  made of these two squares, and \<open>no_cities\<close> is a district file without features.
\<close>

definition scale_tf :: "nat \<Rightarrow> nat \<Rightarrow> point \<Rightarrow> point" where
  "scale_tf src dst p =
     (if src = 4326 \<and> dst = 3857 then (1000 * fst p, 1000 * snd p)
      else if src = 3857 \<and> dst = 4326 then (fst p / 1000, snd p / 1000)
      else p)"

definition ring_mean :: "polygon \<Rightarrow> point" where
  "ring_mean poly =
     (case poly of
        [] \<Rightarrow> (0, 0)
      | ring # holes \<Rightarrow>
          (sum_list (map fst ring) / real (length ring),
           sum_list (map snd ring) / real (length ring)))"

definition square_at :: "real \<Rightarrow> polygon" where
  "square_at y = [[(0, y), (0, y + 2 / 1000), (2 / 1000, y + 2 / 1000), (2 / 1000, y)]]"

definition ex_turbines :: "(string, point geom) row gdf" where
  "ex_turbines =
     \<lparr>crs = Some 4326,
      rows = [\<lparr>attrs = ''A'', geometry = Single (1 / 1000, 5001 / 1000)\<rparr>,
              \<lparr>attrs = ''B'', geometry = Single (1 / 1000, 1001 / 1000)\<rparr>,
              \<lparr>attrs = ''C'', geometry = Multi [(1 / 1000, 2001 / 1000), (1 / 1000, 7001 / 1000)]\<rparr>]\<rparr>"

definition ex_cities :: "(string, polygon geom) row gdf" where
  "ex_cities = \<lparr>crs = Some 4326, rows = [\<lparr>attrs = ''Mitte'', geometry = Single (square_at 0)\<rparr>]\<rparr>"

definition ex_two_cities :: "(string, polygon geom) row gdf" where
  "ex_two_cities =
     \<lparr>crs = Some 4326,
      rows = [\<lparr>attrs = ''Mitte'', geometry = Single (square_at 0)\<rparr>,
              \<lparr>attrs = ''Pankow'', geometry = Single (square_at 6)\<rparr>]\<rparr>"

definition ex_islands :: "(string, polygon geom) row gdf" where
  "ex_islands =
     \<lparr>crs = Some 4326,
      rows = [\<lparr>attrs = ''Islands'', geometry = Multi [square_at 6, square_at 0]\<rparr>]\<rparr>"

definition no_cities :: "(string, polygon geom) row gdf" where
  "no_cities = \<lparr>crs = Some 4326, rows = []\<rparr>"

section \<open>Properties\<close>

subsection \<open>Auxiliary facts\<close>

lemma geometry_explode: "map geometry (rows (explode df)) = all_parts df"
  by (simp add: explode_def all_parts_def map_concat comp_def)

lemma rows_explode_Nil: "rows (explode df) = [] \<longleftrightarrow> all_parts df = []"
  using geometry_explode[of df] by (metis map_is_Nil_conv)

lemma run_ok:
  assumes "crs T = Some a" and "crs C = Some b" and "all_parts T \<noteq> []"
  obtains st where "run thr nb tf cen T C = Inr st"
    and "cities st = with_centroid cen
           \<lparr>crs = Some 3857,
            rows = map (\<lambda>r. r\<lparr>geometry := tf_polygon tf b 3857 (geometry r)\<rparr>) (rows (explode C))\<rparr>"
    and "turbines st = with_nearest_dist (cities st)
           \<lparr>crs = Some 3857,
            rows = map (\<lambda>r. r\<lparr>geometry := tf a 3857 (geometry r)\<rparr>) (rows (explode T))\<rparr>"
    and "close_turbines st =
           \<lparr>crs = Some 4326,
            rows = map (\<lambda>r. r\<lparr>geometry := tf 3857 4326 (geometry r)\<rparr>)
                       (filter (\<lambda>r. fle (nearest_dist r) thr) (rows (turbines st)))\<rparr>"
    and "folium_map st = markers nb (close_turbines st)"
    and "printed st = summary_of (close_turbines st)"
proof -
  have ct: "crs (explode T) = Some a" and cc: "crs (explode C) = Some b"
    using assms by (simp_all add: explode_def)
  have ne: "rows (explode T) \<noteq> []"
    using assms(3) by (simp add: rows_explode_Nil)
  have c3: "crs (with_nearest_dist cs \<lparr>crs = Some 3857, rows = rs\<rparr>) = Some 3857"
    for cs :: "('b, polygon) city_row gdf" and rs :: "('a, point) row list"
    by (simp add: with_nearest_dist_def)
  have r3: "rows (with_nearest_dist cs \<lparr>crs = Some 3857, rows = rs\<rparr>) = [] \<longleftrightarrow> rs = []"
    for cs :: "('b, polygon) city_row gdf" and rs :: "('a, point) row list"
    by (simp add: with_nearest_dist_def)
  show thesis
    by (rule that[of "projr (run thr nb tf cen T C)"])
       (simp_all add: run_def to_crs_def ct cc retained_def Let_def c3 r3 ne)
qed

text \<open>Without any turbine point the script stops with TypeError at the comparison with the
  threshold.\<close>

lemma run_no_points:
  assumes "crs T = Some a" and "crs C = Some b" and "all_parts T = []"
  shows "run thr nb tf cen T C = Inl TypeError"
proof -
  have ct: "crs (explode T) = Some a" and cc: "crs (explode C) = Some b"
    using assms by (simp_all add: explode_def)
  have "rows (explode T) = []"
    using assms(3) by (simp add: rows_explode_Nil)
  then show ?thesis
    by (simp add: run_def to_crs_def ct cc retained_def with_nearest_dist_def)
qed

lemma dropna_map_Some: "dropna (map (\<lambda>c. Some (f c)) xs) = map f xs"
  by (induction xs) simp_all

lemma series_min_Min:
  assumes ne: "dropna s \<noteq> []"
  shows "series_min s = Some (Min (set (dropna s)))"
proof (cases "dropna s")
  case Nil
  with ne show ?thesis by simp
next
  case (Cons v vs)
  have "series_min s = Some (fold min vs v)"
    by (simp add: series_min_def Cons)
  also have "fold min vs v = Min (set (v # vs))"
    by (simp only: Min.set_eq_fold)
  finally show ?thesis
    by (simp only: Cons)
qed

lemma series_max_Max:
  assumes ne: "dropna s \<noteq> []"
  shows "series_max s = Some (Max (set (dropna s)))"
proof (cases "dropna s")
  case Nil
  with ne show ?thesis by simp
next
  case (Cons v vs)
  have "series_max s = Some (fold max vs v)"
    by (simp add: series_max_def Cons)
  also have "fold max vs v = Max (set (v # vs))"
    by (simp only: Max.set_eq_fold)
  finally show ?thesis
    by (simp only: Cons)
qed

lemma series_mean_avg:
  "dropna s \<noteq> [] \<Longrightarrow> series_mean s = Some (sum_list (dropna s) / real (length (dropna s)))"
  by (cases "dropna s") (simp_all add: series_mean_def)

lemma nearest_km_Nil: "nearest_km [] x = None"
  by (simp add: nearest_km_def series_min_def fdiv_def)

lemma distances_to_defined:
  "dropna (map (\<lambda>c. distance_to c x) (map Some cs)) = map (\<lambda>c. distance c x) cs"
  by (induction cs) (simp_all add: distance_to_def)

lemma nearest_km_Min:
  "cs \<noteq> [] \<Longrightarrow>
     nearest_km (map Some cs) x = Some (Min ((\<lambda>c. distance c x) ` set cs) / 1000)"
proof -
  assume ne: "cs \<noteq> []"
  have dn: "dropna (map (\<lambda>c. distance_to c x) (map Some cs)) = map (\<lambda>c. distance c x) cs"
    by (rule distances_to_defined)
  with ne have "dropna (map (\<lambda>c. distance_to c x) (map Some cs)) \<noteq> []"
    by simp
  from series_min_Min[OF this] show ?thesis
    by (simp add: nearest_km_def fdiv_def dn del: map_map)
qed



lemma polygon_empty_tf: "polygon_empty (tf_polygon tf a b p) = polygon_empty p"
  by (cases p) (simp_all add: polygon_empty_def tf_polygon_def)

lemma centroids_defined:
  "\<forall>p \<in> set ps. \<not> polygon_empty p \<Longrightarrow>
     map (\<lambda>p. centroid_of cen (tf_polygon tf a b p)) ps
       = map Some (map (\<lambda>p. cen (tf_polygon tf a b p)) ps)"
  by (simp add: centroid_of_def polygon_empty_tf)

lemma dropna_retained:
  "dropna (map nearest_dist (filter (\<lambda>r. fle (nearest_dist r) thr) rs))
     = filter (\<lambda>d. d \<le> thr) (dropna (map nearest_dist rs))"
proof (induction rs)
  case Nil
  show ?case by simp
next
  case (Cons r rs)
  then show ?case by (cases "nearest_dist r") (simp_all add: fle_def)
qed

lemma length_retained:
  "length (filter (\<lambda>r. fle (nearest_dist r) thr) rs)
     = length (filter (\<lambda>d. d \<le> thr) (dropna (map nearest_dist rs)))"
proof (induction rs)
  case Nil
  show ?case by simp
next
  case (Cons r rs)
  then show ?case by (cases "nearest_dist r") (simp_all add: fle_def)
qed

lemma centroids_run:
  "map centroid (rows (with_centroid cen
       \<lparr>crs = c, rows = map (\<lambda>r. r\<lparr>geometry := g (geometry r)\<rparr>) (rows (explode C))\<rparr>))
     = map (\<lambda>p. centroid_of cen (g p)) (all_parts C)"
  by (simp add: with_centroid_def comp_def flip: geometry_explode)


lemma geometry_turbines_run:
  "map geometry (rows (with_nearest_dist cs
       \<lparr>crs = c, rows = map (\<lambda>r. r\<lparr>geometry := g (geometry r)\<rparr>) (rows (explode T))\<rparr>))
     = map g (all_parts T)"
  by (simp add: with_nearest_dist_def comp_def flip: geometry_explode)

lemma nearest_dist_run:
  "r \<in> set (rows (with_nearest_dist cs df)) \<Longrightarrow>
     nearest_dist r = nearest_km (map centroid (rows cs)) (geometry r)"
  by (auto simp: with_nearest_dist_def)



lemma length_filter_mono:
  "(\<And>x. x \<in> set xs \<Longrightarrow> P x \<Longrightarrow> Q x) \<Longrightarrow> length (filter P xs) \<le> length (filter Q xs)"
  by (induction xs) auto

lemma red_markers:
  "length (filter (\<lambda>m. color m = Red) (markers nb df))
     = length (filter (\<lambda>r. flt (nearest_dist r) nb) (rows df))"
  by (simp add: markers_def filter_map comp_def marker_color_def)


lemma column_from_rows:
  "(\<forall>r \<in> set rs. f r = g (geometry r)) \<Longrightarrow> map f rs = map g (map geometry rs)"
  by simp


subsection \<open>The worked example\<close>

lemma distance_vertical: "distance (x, y1) (x, y2) = \<bar>y1 - y2\<bar>"
  by (simp add: distance_def)

lemmas ex_defs = ex_turbines_def ex_cities_def ex_two_cities_def ex_islands_def square_at_def
  scale_tf_def ring_mean_def tf_polygon_def all_parts_def

lemmas run_defs = run_def explode_def to_crs_def with_centroid_def with_nearest_dist_def
  retained_def markers_def summary_of_def nearest_km_def series_min_def series_max_def
  series_mean_def fdiv_def fle_def flt_def marker_color_def polygon_empty_def centroid_of_def
  distance_to_def

lemma ex_crs:
  "crs ex_turbines = Some 4326" "crs ex_cities = Some 4326" "crs ex_islands = Some 4326"
  "crs no_cities = Some 4326" "crs ex_two_cities = Some 4326"
  by (simp_all add: ex_defs no_cities_def)

lemma ex_parts:
  "all_parts ex_turbines =
     [(1 / 1000, 5001 / 1000), (1 / 1000, 1001 / 1000), (1 / 1000, 2001 / 1000),
      (1 / 1000, 7001 / 1000)]"
  "all_parts ex_cities = [square_at 0]"
  "all_parts ex_islands = [square_at 6, square_at 0]"
  "all_parts no_cities = []"
  "all_parts ex_two_cities = [square_at 0, square_at 6]"
  by (simp_all add: ex_turbines_def ex_cities_def ex_islands_def ex_two_cities_def no_cities_def
        all_parts_def)

lemma ex_points: "all_parts ex_turbines \<noteq> []"
  by (simp add: ex_parts)

lemma ex_nonempty: "\<not> polygon_empty (square_at y)"
  by (simp add: polygon_empty_def square_at_def)

lemma ex_centroids:
  "ring_mean (tf_polygon scale_tf 4326 3857 (square_at 0)) = (1, 1)"
  "ring_mean (tf_polygon scale_tf 4326 3857 (square_at 6)) = (1, 6001)"
  by (simp_all add: ring_mean_def tf_polygon_def scale_tf_def square_at_def)

lemma ex_planar:
  "map (scale_tf 4326 3857) (all_parts ex_turbines) = [(1, 5001), (1, 1001), (1, 2001), (1, 7001)]"
  by (simp add: ex_parts scale_tf_def)

lemma ex_turbines_rows:
  assumes "run thr nb scale_tf ring_mean ex_turbines ex_cities = Inr st"
  shows "rows (turbines st) =
           [\<lparr>attrs = ''A'', geometry = (1, 5001), nearest_dist = Some 5\<rparr>,
            \<lparr>attrs = ''B'', geometry = (1, 1001), nearest_dist = Some 1\<rparr>,
            \<lparr>attrs = ''C'', geometry = (1, 2001), nearest_dist = Some 2\<rparr>,
            \<lparr>attrs = ''C'', geometry = (1, 7001), nearest_dist = Some 7\<rparr>]"
proof -
  obtain st' where "run thr nb scale_tf ring_mean ex_turbines ex_cities = Inr st'"
    and cs: "cities st' = with_centroid ring_mean
           \<lparr>crs = Some 3857,
            rows = map (\<lambda>r. r\<lparr>geometry := tf_polygon scale_tf 4326 3857 (geometry r)\<rparr>)
                       (rows (explode ex_cities))\<rparr>"
    and ts: "turbines st' = with_nearest_dist (cities st')
           \<lparr>crs = Some 3857,
            rows = map (\<lambda>r. r\<lparr>geometry := scale_tf 4326 3857 (geometry r)\<rparr>)
                       (rows (explode ex_turbines))\<rparr>"
    by (rule run_ok[OF ex_crs(1) ex_crs(2) ex_points])
  with assms have "st' = st"
    by simp
  with cs ts show ?thesis
    by (simp add: explode_def with_centroid_def with_nearest_dist_def nearest_km_def
          series_min_def fdiv_def polygon_empty_def centroid_of_def distance_to_def ex_defs
          distance_vertical)
qed

subsection \<open>Claims\<close>

text \<open>
  C1. With at least one input point, at least one district polygon and no empty
  polygon, the \<open>nearest_dist\<close> assigned to every point is the minimum, over all centroids,
  of the planar distance from the point to the centroid, in metres, divided by 1000. The
  points are those of the turbine file in the planar system; the centroids \<open>cs\<close> are
  those of the district polygons in the planar system, one per polygon.
\<close>

theorem C1_nearest_is_minimum:
  assumes "crs T = Some a" and "crs C = Some b" and "all_parts T \<noteq> []"
    and "all_parts C \<noteq> []" and "\<forall>p \<in> set (all_parts C). \<not> polygon_empty p"
  shows "\<exists>st cs. run thr nb tf cen T C = Inr st
           \<and> cs = map (\<lambda>p. cen (tf_polygon tf b 3857 p)) (all_parts C)
           \<and> map geometry (rows (turbines st)) = map (tf a 3857) (all_parts T)
           \<and> map centroid (rows (cities st)) = map Some cs
           \<and> (\<forall>r \<in> set (rows (turbines st)).
                 nearest_dist r
                   = Some (Min ((\<lambda>c. distance c (geometry r)) ` set cs) / 1000))"
proof -
  obtain st where run: "run thr nb tf cen T C = Inr st"
    and cs: "cities st = with_centroid cen
           \<lparr>crs = Some 3857,
            rows = map (\<lambda>r. r\<lparr>geometry := tf_polygon tf b 3857 (geometry r)\<rparr>) (rows (explode C))\<rparr>"
    and ts: "turbines st = with_nearest_dist (cities st)
           \<lparr>crs = Some 3857,
            rows = map (\<lambda>r. r\<lparr>geometry := tf a 3857 (geometry r)\<rparr>) (rows (explode T))\<rparr>"
    by (rule run_ok[OF assms(1,2,3)])
  define cents where "cents = map (\<lambda>p. cen (tf_polygon tf b 3857 p)) (all_parts C)"
  have "map centroid (rows (cities st))
          = map (\<lambda>p. centroid_of cen (tf_polygon tf b 3857 p)) (all_parts C)"
    unfolding cs by (rule centroids_run)
  also have "\<dots> = map Some cents"
    unfolding cents_def using assms(5) by (rule centroids_defined)
  finally have col: "map centroid (rows (cities st)) = map Some cents" .
  from assms(4) have ne: "cents \<noteq> []"
    by (simp add: cents_def)
  have geo: "map geometry (rows (turbines st)) = map (tf a 3857) (all_parts T)"
    unfolding ts by (rule geometry_turbines_run)
  have near: "nearest_dist r = Some (Min ((\<lambda>c. distance c (geometry r)) ` set cents) / 1000)"
    if "r \<in> set (rows (turbines st))" for r
  proof -
    from that have "nearest_dist r = nearest_km (map centroid (rows (cities st))) (geometry r)"
      unfolding ts by (rule nearest_dist_run)
    then show ?thesis
      by (simp only: col nearest_km_Min[OF ne])
  qed
  from run cents_def geo col near show ?thesis
    by blast
qed

theorem C1_witness:
  "crs ex_turbines = Some 4326 \<and> crs ex_two_cities = Some 4326
   \<and> all_parts ex_turbines \<noteq> [] \<and> all_parts ex_two_cities \<noteq> []
   \<and> \<not> polygon_empty (square_at 0) \<and> \<not> polygon_empty (square_at 6)
   \<and> (\<exists>st. run 5 2 scale_tf ring_mean ex_turbines ex_two_cities = Inr st
          \<and> map geometry (rows (turbines st)) = [(1, 5001), (1, 1001), (1, 2001), (1, 7001)]
          \<and> map centroid (rows (cities st)) = [Some (1, 1), Some (1, 6001)]
          \<and> map nearest_dist (rows (turbines st)) = [Some 1, Some 1, Some 2, Some 1])"
proof -
  have ne: "all_parts ex_two_cities \<noteq> []"
    by (simp add: ex_parts)
  have full: "\<forall>p \<in> set (all_parts ex_two_cities). \<not> polygon_empty p"
    by (simp add: ex_parts ex_nonempty)
  from C1_nearest_is_minimum[OF ex_crs(1) ex_crs(5) ex_points ne full, of 5 2 scale_tf ring_mean]
  obtain st cs where run: "run 5 2 scale_tf ring_mean ex_turbines ex_two_cities = Inr st"
    and cs: "cs = map (\<lambda>p. ring_mean (tf_polygon scale_tf 4326 3857 p)) (all_parts ex_two_cities)"
    and geo: "map geometry (rows (turbines st)) = map (scale_tf 4326 3857) (all_parts ex_turbines)"
    and col: "map centroid (rows (cities st)) = map Some cs"
    and near: "\<forall>r \<in> set (rows (turbines st)).
                 nearest_dist r = Some (Min ((\<lambda>c. distance c (geometry r)) ` set cs) / 1000)"
    by blast
  have cents: "cs = [(1, 1), (1, 6001)]"
    by (simp add: cs ex_parts ex_centroids)
  have g: "map geometry (rows (turbines st)) = [(1, 5001), (1, 1001), (1, 2001), (1, 7001)]"
    by (simp only: geo ex_planar)
  have c: "map centroid (rows (cities st)) = [Some (1, 1), Some (1, 6001)]"
    by (simp add: col cents)
  from near have "map nearest_dist (rows (turbines st))
      = map (\<lambda>p. Some (Min ((\<lambda>c. distance c p) ` set cs) / 1000))
            (map geometry (rows (turbines st)))"
    by (rule column_from_rows)
  then have d: "map nearest_dist (rows (turbines st)) = [Some 1, Some 1, Some 2, Some 1]"
    by (simp add: g cents distance_vertical)
  show ?thesis
    by (intro conjI exI[of _ st]) (fact ex_crs ex_points ne ex_nonempty run g c d)+
qed

text \<open>
  C2. With at least one input point, and whatever the districts are, the distance
  column has one entry per input point, in order: a MultiPoint feature counts with each of
  its points. The threshold is applied only afterwards: the \<open>close_turbines\<close> column is
  the filtered distance column. (Without any point the comparison with the threshold
  raises, see \<open>run_no_points\<close>.)
\<close>

theorem C2_one_distance_per_point:
  assumes "crs T = Some a" and "crs C = Some b" and "all_parts T \<noteq> []"
  shows "\<exists>st. run thr nb tf cen T C = Inr st
           \<and> length (rows (turbines st)) = length (all_parts T)
           \<and> map geometry (rows (turbines st)) = map (tf a 3857) (all_parts T)
           \<and> map nearest_dist (rows (close_turbines st))
               = filter (\<lambda>d. fle d thr) (map nearest_dist (rows (turbines st)))"
proof -
  obtain st where run: "run thr nb tf cen T C = Inr st"
    and ts: "turbines st = with_nearest_dist (cities st)
           \<lparr>crs = Some 3857,
            rows = map (\<lambda>r. r\<lparr>geometry := tf a 3857 (geometry r)\<rparr>) (rows (explode T))\<rparr>"
    and cl: "close_turbines st =
           \<lparr>crs = Some 4326,
            rows = map (\<lambda>r. r\<lparr>geometry := tf 3857 4326 (geometry r)\<rparr>)
                       (filter (\<lambda>r. fle (nearest_dist r) thr) (rows (turbines st)))\<rparr>"
    by (rule run_ok[OF assms])
  have geo: "map geometry (rows (turbines st)) = map (tf a 3857) (all_parts T)"
    unfolding ts by (rule geometry_turbines_run)
  from geo have len: "length (rows (turbines st)) = length (all_parts T)"
    by (metis length_map)
  have "map nearest_dist (rows (close_turbines st))
          = filter (\<lambda>d. fle d thr) (map nearest_dist (rows (turbines st)))"
    by (simp add: cl filter_map comp_def)
  with run geo len show ?thesis
    by blast
qed

theorem C2_witness:
  "crs ex_turbines = Some 4326 \<and> crs ex_cities = Some 4326 \<and> all_parts ex_turbines \<noteq> []
   \<and> length (rows ex_turbines) = 3 \<and> length (all_parts ex_turbines) = 4
   \<and> (\<exists>st. run 5 2 scale_tf ring_mean ex_turbines ex_cities = Inr st
          \<and> length (rows (turbines st)) = 4
          \<and> map nearest_dist (rows (turbines st)) = [Some 5, Some 1, Some 2, Some 7]
          \<and> map nearest_dist (rows (close_turbines st)) = [Some 5, Some 1, Some 2])"
proof -
  from C2_one_distance_per_point[OF ex_crs(1) ex_crs(2) ex_points, of 5 2 scale_tf ring_mean]
  obtain st where run: "run 5 2 scale_tf ring_mean ex_turbines ex_cities = Inr st"
    and len: "length (rows (turbines st)) = length (all_parts ex_turbines)"
    and close: "map nearest_dist (rows (close_turbines st))
               = filter (\<lambda>d. fle d 5) (map nearest_dist (rows (turbines st)))"
    by blast
  have n3: "length (rows ex_turbines) = 3"
    by (simp add: ex_turbines_def)
  have n4: "length (all_parts ex_turbines) = 4"
    by (simp add: ex_parts)
  have l: "length (rows (turbines st)) = 4"
    by (simp only: len n4)
  have col: "map nearest_dist (rows (turbines st)) = [Some 5, Some 1, Some 2, Some 7]"
    by (simp add: ex_turbines_rows[OF run])
  have cl: "map nearest_dist (rows (close_turbines st)) = [Some 5, Some 1, Some 2]"
    by (simp add: close col fle_def)
  show ?thesis
    by (intro conjI exI[of _ st]) (fact ex_crs ex_points n3 n4 run l col cl)+
qed

text \<open>
  C3. With at least one input point, the printed count, average, minimum and maximum
  are those of exactly the distances that are at most the threshold: with \<open>ds\<close> these
  distances, the count is the length of \<open>ds\<close>, and when \<open>ds\<close> is not empty the average
  is their arithmetic mean and the minimum and maximum are their extrema. (Means over the
  reals.)
\<close>

theorem C3_summary_over_retained:
  assumes "crs T = Some a" and "crs C = Some b" and "all_parts T \<noteq> []"
  shows "\<exists>st ds. run thr nb tf cen T C = Inr st
           \<and> ds = filter (\<lambda>d. d \<le> thr) (dropna (map nearest_dist (rows (turbines st))))
           \<and> count (printed st) = length ds
           \<and> (ds \<noteq> [] \<longrightarrow>
                 average (printed st) = Some (sum_list ds / real (length ds))
               \<and> minimum (printed st) = Some (Min (set ds))
               \<and> maximum (printed st) = Some (Max (set ds)))"
proof -
  obtain st where run: "run thr nb tf cen T C = Inr st"
    and cl: "close_turbines st =
           \<lparr>crs = Some 4326,
            rows = map (\<lambda>r. r\<lparr>geometry := tf 3857 4326 (geometry r)\<rparr>)
                       (filter (\<lambda>r. fle (nearest_dist r) thr) (rows (turbines st)))\<rparr>"
    and pr: "printed st = summary_of (close_turbines st)"
    by (rule run_ok[OF assms])
  define ds where "ds = filter (\<lambda>d. d \<le> thr) (dropna (map nearest_dist (rows (turbines st))))"
  have col: "map nearest_dist (rows (close_turbines st))
          = map nearest_dist (filter (\<lambda>r. fle (nearest_dist r) thr) (rows (turbines st)))"
    by (simp add: cl comp_def)
  have dn: "dropna (map nearest_dist (rows (close_turbines st))) = ds"
    unfolding col ds_def by (rule dropna_retained)
  have "length (rows (close_turbines st))
          = length (filter (\<lambda>r. fle (nearest_dist r) thr) (rows (turbines st)))"
    by (simp add: cl)
  then have cnt: "count (printed st) = length ds"
    by (simp add: pr summary_of_def ds_def length_retained)
  have stats: "average (printed st) = Some (sum_list ds / real (length ds))
      \<and> minimum (printed st) = Some (Min (set ds))
      \<and> maximum (printed st) = Some (Max (set ds))" if "ds \<noteq> []"
  proof -
    from that have ne: "dropna (map nearest_dist (rows (close_turbines st))) \<noteq> []"
      by (simp add: dn)
    show ?thesis
      by (simp add: pr summary_of_def series_mean_avg[OF ne] series_min_Min[OF ne]
            series_max_Max[OF ne] dn)
  qed
  from run cnt stats ds_def show ?thesis
    by blast
qed

theorem C3_witness:
  "crs ex_turbines = Some 4326 \<and> crs ex_cities = Some 4326 \<and> all_parts ex_turbines \<noteq> []
   \<and> (\<exists>st. run 5 2 scale_tf ring_mean ex_turbines ex_cities = Inr st
          \<and> map nearest_dist (rows (turbines st)) = [Some 5, Some 1, Some 2, Some 7]
          \<and> series_mean (map nearest_dist (rows (turbines st))) = Some (15 / 4)
          \<and> count (printed st) = 3
          \<and> average (printed st) = Some (8 / 3)
          \<and> minimum (printed st) = Some 1
          \<and> maximum (printed st) = Some 5)"
proof -
  from C3_summary_over_retained[OF ex_crs(1) ex_crs(2) ex_points, of 5 2 scale_tf ring_mean]
  obtain st ds where run: "run 5 2 scale_tf ring_mean ex_turbines ex_cities = Inr st"
    and ds: "ds = filter (\<lambda>d. d \<le> 5) (dropna (map nearest_dist (rows (turbines st))))"
    and cnt: "count (printed st) = length ds"
    and stats: "ds \<noteq> [] \<longrightarrow>
                 average (printed st) = Some (sum_list ds / real (length ds))
               \<and> minimum (printed st) = Some (Min (set ds))
               \<and> maximum (printed st) = Some (Max (set ds))"
    by blast
  have col: "map nearest_dist (rows (turbines st)) = [Some 5, Some 1, Some 2, Some 7]"
    by (simp add: ex_turbines_rows[OF run])
  have full: "series_mean (map nearest_dist (rows (turbines st))) = Some (15 / 4)"
    by (simp add: col series_mean_def)
  have kept: "ds = [5, 1, 2]"
    by (simp add: ds col)
  have c: "count (printed st) = 3"
    by (simp add: cnt kept)
  from stats have av: "average (printed st) = Some (8 / 3)"
    by (simp add: kept)
  from stats have mn: "minimum (printed st) = Some 1"
    by (simp add: kept)
  from stats have mx: "maximum (printed st) = Some 5"
    by (simp add: kept)
  show ?thesis
    by (intro conjI exI[of _ st]) (fact ex_crs ex_points run col full c av mn mx)+
qed

text \<open>
  C4. With at least one input point: a point is retained exactly when its distance is
  at most the threshold, so a distance equal to the threshold is kept and a larger one is
  dropped; and a retained point gets the red ("near") marker exactly when its distance is
  below the near band, so a distance equal to the near band is orange ("moderate").
\<close>

theorem C4_boundaries:
  assumes "crs T = Some a" and "crs C = Some b" and "all_parts T \<noteq> []"
  shows "\<exists>st. run thr nb tf cen T C = Inr st
           \<and> map (\<lambda>r. (attrs r, nearest_dist r)) (rows (close_turbines st))
               = map (\<lambda>r. (attrs r, nearest_dist r))
                     (filter (\<lambda>r. fle (nearest_dist r) thr) (rows (turbines st)))
           \<and> (\<forall>r \<in> set (rows (turbines st)). \<forall>d. nearest_dist r = Some d \<longrightarrow>
                 ((\<exists>r' \<in> set (rows (close_turbines st)).
                     attrs r' = attrs r \<and> nearest_dist r' = Some d) \<longleftrightarrow> d \<le> thr))
           \<and> map popup (folium_map st) = map nearest_dist (rows (close_turbines st))
           \<and> (\<forall>m \<in> set (folium_map st). \<forall>d. popup m = Some d \<longrightarrow>
                 (color m = Red \<longleftrightarrow> d < nb))
           \<and> (\<forall>r \<in> set (rows (turbines st)). nearest_dist r = Some thr \<longrightarrow>
                 (\<exists>r' \<in> set (rows (close_turbines st)).
                    attrs r' = attrs r \<and> nearest_dist r' = Some thr))
           \<and> (\<forall>m \<in> set (folium_map st). popup m = Some nb \<longrightarrow> color m = Orange)"
proof -
  obtain st where run: "run thr nb tf cen T C = Inr st"
    and cl: "close_turbines st =
           \<lparr>crs = Some 4326,
            rows = map (\<lambda>r. r\<lparr>geometry := tf 3857 4326 (geometry r)\<rparr>)
                       (filter (\<lambda>r. fle (nearest_dist r) thr) (rows (turbines st)))\<rparr>"
    and fm: "folium_map st = markers nb (close_turbines st)"
    by (rule run_ok[OF assms])
  have cols: "map (\<lambda>r. (attrs r, nearest_dist r)) (rows (close_turbines st))
               = map (\<lambda>r. (attrs r, nearest_dist r))
                     (filter (\<lambda>r. fle (nearest_dist r) thr) (rows (turbines st)))"
    by (simp add: cl comp_def)
  have kept: "(\<exists>r' \<in> set (rows (close_turbines st)).
                 attrs r' = attrs r \<and> nearest_dist r' = Some d) \<longleftrightarrow> d \<le> thr"
    if r: "r \<in> set (rows (turbines st))" and d: "nearest_dist r = Some d" for r d
  proof
    assume "\<exists>r' \<in> set (rows (close_turbines st)). attrs r' = attrs r \<and> nearest_dist r' = Some d"
    then obtain r' where "r' \<in> set (rows (close_turbines st))" and "nearest_dist r' = Some d"
      by blast
    then have "fle (Some d) thr"
      by (auto simp: cl)
    then show "d \<le> thr"
      by (simp add: fle_def)
  next
    assume "d \<le> thr"
    with r d have "r\<lparr>geometry := tf 3857 4326 (geometry r)\<rparr> \<in> set (rows (close_turbines st))"
      by (simp add: cl fle_def)
    with d show "\<exists>r' \<in> set (rows (close_turbines st)). attrs r' = attrs r \<and> nearest_dist r' = Some d"
      by (intro bexI[of _ "r\<lparr>geometry := tf 3857 4326 (geometry r)\<rparr>"]) simp_all
  qed
  have edge: "\<exists>r' \<in> set (rows (close_turbines st)). attrs r' = attrs r \<and> nearest_dist r' = Some thr"
    if "r \<in> set (rows (turbines st))" and "nearest_dist r = Some thr" for r
    using kept[OF that] by simp
  have pop: "map popup (folium_map st) = map nearest_dist (rows (close_turbines st))"
    by (simp add: fm markers_def comp_def)
  have band: "color m = Red \<longleftrightarrow> d < nb" if "m \<in> set (folium_map st)" and "popup m = Some d" for m d
    using that by (auto simp: fm markers_def marker_color_def flt_def split: if_splits)
  have moderate: "color m = Orange" if "m \<in> set (folium_map st)" and "popup m = Some nb" for m
    using band[OF that] by (cases "color m") simp_all
  from run cols kept pop band edge moderate show ?thesis
    by blast
qed

theorem C4_witness:
  "crs ex_turbines = Some 4326 \<and> crs ex_cities = Some 4326 \<and> all_parts ex_turbines \<noteq> []
   \<and> (\<exists>st. run 5 2 scale_tf ring_mean ex_turbines ex_cities = Inr st
          \<and> map (\<lambda>r. (attrs r, nearest_dist r)) (rows (turbines st))
              = [(''A'', Some 5), (''B'', Some 1), (''C'', Some 2), (''C'', Some 7)]
          \<and> map (\<lambda>r. (attrs r, nearest_dist r)) (rows (close_turbines st))
              = [(''A'', Some 5), (''B'', Some 1), (''C'', Some 2)]
          \<and> map popup (folium_map st) = [Some 5, Some 1, Some 2]
          \<and> map color (folium_map st) = [Orange, Red, Orange])"
proof -
  from C4_boundaries[OF ex_crs(1) ex_crs(2) ex_points, of 5 2 scale_tf ring_mean]
  obtain st where run: "run 5 2 scale_tf ring_mean ex_turbines ex_cities = Inr st"
    and cols: "map (\<lambda>r. (attrs r, nearest_dist r)) (rows (close_turbines st))
               = map (\<lambda>r. (attrs r, nearest_dist r))
                     (filter (\<lambda>r. fle (nearest_dist r) 5) (rows (turbines st)))"
    and pop: "map popup (folium_map st) = map nearest_dist (rows (close_turbines st))"
    and band: "\<forall>m \<in> set (folium_map st). \<forall>d. popup m = Some d \<longrightarrow> (color m = Red \<longleftrightarrow> d < 2)"
    by blast
  have all: "map (\<lambda>r. (attrs r, nearest_dist r)) (rows (turbines st))
              = [(''A'', Some 5), (''B'', Some 1), (''C'', Some 2), (''C'', Some 7)]"
    by (simp add: ex_turbines_rows[OF run])
  have close: "map (\<lambda>r. (attrs r, nearest_dist r)) (rows (close_turbines st))
              = [(''A'', Some 5), (''B'', Some 1), (''C'', Some 2)]"
    by (simp add: cols ex_turbines_rows[OF run] fle_def)
  have "map nearest_dist (rows (close_turbines st))
          = map snd (map (\<lambda>r. (attrs r, nearest_dist r)) (rows (close_turbines st)))"
    by (simp add: comp_def)
  then have p: "map popup (folium_map st) = [Some 5, Some 1, Some 2]"
    by (simp only: pop close) simp
  then obtain m1 m2 m3 where ms: "folium_map st = [m1, m2, m3]"
    and p1: "popup m1 = Some 5" and p2: "popup m2 = Some 1" and p3: "popup m3 = Some 2"
    by (auto simp: map_eq_Cons_conv)
  from band p1 have "color m1 = Red \<longleftrightarrow> (5::real) < 2"
    by (simp add: ms)
  then have c1: "color m1 = Orange"
    by (cases "color m1") simp_all
  from band p2 have "color m2 = Red \<longleftrightarrow> (1::real) < 2"
    by (simp add: ms)
  then have c2: "color m2 = Red"
    by simp
  from band p3 have "color m3 = Red \<longleftrightarrow> (2::real) < 2"
    by (simp add: ms)
  then have c3: "color m3 = Orange"
    by (cases "color m3") simp_all
  have k: "map color (folium_map st) = [Orange, Red, Orange]"
    by (simp add: ms c1 c2 c3)
  show ?thesis
    by (intro conjI exI[of _ st]) (fact ex_crs ex_points run all close p k)+
qed

text \<open>
  C5, as stated, fails: with a district file without features the script raises
  nothing. It runs to the end, every distance is NaN, no turbine is retained and the
  printed statistics are 0, NaN, NaN, NaN.
\<close>

theorem C5_counterexample:
  "notebook scale_tf ring_mean ex_turbines no_cities =
     Inr \<lparr>turbines =
            \<lparr>crs = Some 3857,
             rows = [\<lparr>attrs = ''A'', geometry = (1, 5001), nearest_dist = None\<rparr>,
                     \<lparr>attrs = ''B'', geometry = (1, 1001), nearest_dist = None\<rparr>,
                     \<lparr>attrs = ''C'', geometry = (1, 2001), nearest_dist = None\<rparr>,
                     \<lparr>attrs = ''C'', geometry = (1, 7001), nearest_dist = None\<rparr>]\<rparr>,
          cities = \<lparr>crs = Some 3857, rows = []\<rparr>,
          close_turbines = \<lparr>crs = Some 4326, rows = []\<rparr>,
          folium_map = [],
          printed = \<lparr>count = 0, average = None, minimum = None, maximum = None\<rparr>\<rparr>"
  by (simp add: notebook_def run_defs ex_defs no_cities_def)

text \<open>
  C5, amended. If the district file has no polygon and there is at least one input
  point, then, \<open>Series.min()\<close> of an empty series being NaN as in pandas 2, no error is
  raised: every point gets NaN as its distance, no point is retained, and the summary is
  count 0 with NaN for the average, minimum and maximum.
\<close>

theorem C5_empty_regions_give_nan:
  assumes "crs T = Some a" and "crs C = Some b" and "all_parts T \<noteq> []"
    and "all_parts C = []"
  shows "\<exists>st. run thr nb tf cen T C = Inr st
           \<and> length (rows (turbines st)) = length (all_parts T)
           \<and> (\<forall>r \<in> set (rows (turbines st)). nearest_dist r = None)
           \<and> rows (close_turbines st) = []
           \<and> printed st = \<lparr>count = 0, average = None, minimum = None, maximum = None\<rparr>"
proof -
  obtain st where run: "run thr nb tf cen T C = Inr st"
    and cs: "cities st = with_centroid cen
           \<lparr>crs = Some 3857,
            rows = map (\<lambda>r. r\<lparr>geometry := tf_polygon tf b 3857 (geometry r)\<rparr>) (rows (explode C))\<rparr>"
    and ts: "turbines st = with_nearest_dist (cities st)
           \<lparr>crs = Some 3857,
            rows = map (\<lambda>r. r\<lparr>geometry := tf a 3857 (geometry r)\<rparr>) (rows (explode T))\<rparr>"
    and cl: "close_turbines st =
           \<lparr>crs = Some 4326,
            rows = map (\<lambda>r. r\<lparr>geometry := tf 3857 4326 (geometry r)\<rparr>)
                       (filter (\<lambda>r. fle (nearest_dist r) thr) (rows (turbines st)))\<rparr>"
    and pr: "printed st = summary_of (close_turbines st)"
    by (rule run_ok[OF assms(1,2,3)])
  have "map centroid (rows (cities st))
          = map (\<lambda>p. centroid_of cen (tf_polygon tf b 3857 p)) (all_parts C)"
    unfolding cs by (rule centroids_run)
  with assms(4) have cents: "map centroid (rows (cities st)) = []"
    by simp
  have geo: "map geometry (rows (turbines st)) = map (tf a 3857) (all_parts T)"
    unfolding ts by (rule geometry_turbines_run)
  from geo have len: "length (rows (turbines st)) = length (all_parts T)"
    by (metis length_map)
  have nan: "nearest_dist r = None" if "r \<in> set (rows (turbines st))" for r
  proof -
    from that have "nearest_dist r = nearest_km (map centroid (rows (cities st))) (geometry r)"
      unfolding ts by (rule nearest_dist_run)
    then show ?thesis
      by (simp only: cents nearest_km_Nil)
  qed
  then have none: "filter (\<lambda>r. fle (nearest_dist r) thr) (rows (turbines st)) = []"
    by (simp add: fle_def)
  have rows: "rows (close_turbines st) = []"
    by (simp add: cl none)
  have "printed st = \<lparr>count = 0, average = None, minimum = None, maximum = None\<rparr>"
    by (simp add: pr summary_of_def rows series_min_def series_max_def series_mean_def)
  with run len nan rows show ?thesis
    by blast
qed

theorem C5_witness:
  "crs ex_turbines = Some 4326 \<and> crs no_cities = Some 4326 \<and> all_parts ex_turbines \<noteq> []
   \<and> all_parts no_cities = []
   \<and> (\<exists>st. run 5 2 scale_tf ring_mean ex_turbines no_cities = Inr st
          \<and> map nearest_dist (rows (turbines st)) = [None, None, None, None]
          \<and> rows (close_turbines st) = []
          \<and> printed st = \<lparr>count = 0, average = None, minimum = None, maximum = None\<rparr>)"
proof -
  from C5_empty_regions_give_nan[OF ex_crs(1) ex_crs(4) ex_points ex_parts(4),
      of 5 2 scale_tf ring_mean]
  obtain st where run: "run 5 2 scale_tf ring_mean ex_turbines no_cities = Inr st"
    and len: "length (rows (turbines st)) = length (all_parts ex_turbines)"
    and nan: "\<forall>r \<in> set (rows (turbines st)). nearest_dist r = None"
    and close: "rows (close_turbines st) = []"
    and pr: "printed st = \<lparr>count = 0, average = None, minimum = None, maximum = None\<rparr>"
    by blast
  from nan have "map nearest_dist (rows (turbines st)) = map (\<lambda>r. None) (rows (turbines st))"
    by simp
  also have "\<dots> = replicate (length (all_parts ex_turbines)) None"
    by (simp only: map_replicate_const len)
  also have "\<dots> = [None, None, None, None]"
    by (simp add: ex_parts)
  finally have col: "map nearest_dist (rows (turbines st)) = [None, None, None, None]" .
  show ?thesis
    by (intro conjI exI[of _ st]) (fact ex_crs ex_points ex_parts run col close pr)+
qed



text \<open>
  C7. On the same input with at least one point, a smaller threshold never retains more
  points, and a smaller near band never gives more red ("near") markers.
\<close>

theorem C7_counts_monotone:
  assumes "crs T = Some a" and "crs C = Some b" and "all_parts T \<noteq> []"
    and "t1 \<le> t2" and "n1 \<le> n2"
  shows "(\<exists>lo hi. run t1 nb tf cen T C = Inr lo \<and> run t2 nb tf cen T C = Inr hi
            \<and> count (printed lo) \<le> count (printed hi))
       \<and> (\<exists>lo hi. run thr n1 tf cen T C = Inr lo \<and> run thr n2 tf cen T C = Inr hi
            \<and> length (filter (\<lambda>m. color m = Red) (folium_map lo))
                \<le> length (filter (\<lambda>m. color m = Red) (folium_map hi)))"
proof
  obtain lo where rl: "run t1 nb tf cen T C = Inr lo"
    and csl: "cities lo = with_centroid cen
           \<lparr>crs = Some 3857,
            rows = map (\<lambda>r. r\<lparr>geometry := tf_polygon tf b 3857 (geometry r)\<rparr>) (rows (explode C))\<rparr>"
    and tsl: "turbines lo = with_nearest_dist (cities lo)
           \<lparr>crs = Some 3857,
            rows = map (\<lambda>r. r\<lparr>geometry := tf a 3857 (geometry r)\<rparr>) (rows (explode T))\<rparr>"
    and cll: "close_turbines lo =
           \<lparr>crs = Some 4326,
            rows = map (\<lambda>r. r\<lparr>geometry := tf 3857 4326 (geometry r)\<rparr>)
                       (filter (\<lambda>r. fle (nearest_dist r) t1) (rows (turbines lo)))\<rparr>"
    and prl: "printed lo = summary_of (close_turbines lo)"
    by (rule run_ok[OF assms(1,2,3)])
  obtain hi where rh: "run t2 nb tf cen T C = Inr hi"
    and csh: "cities hi = with_centroid cen
           \<lparr>crs = Some 3857,
            rows = map (\<lambda>r. r\<lparr>geometry := tf_polygon tf b 3857 (geometry r)\<rparr>) (rows (explode C))\<rparr>"
    and tsh: "turbines hi = with_nearest_dist (cities hi)
           \<lparr>crs = Some 3857,
            rows = map (\<lambda>r. r\<lparr>geometry := tf a 3857 (geometry r)\<rparr>) (rows (explode T))\<rparr>"
    and clh: "close_turbines hi =
           \<lparr>crs = Some 4326,
            rows = map (\<lambda>r. r\<lparr>geometry := tf 3857 4326 (geometry r)\<rparr>)
                       (filter (\<lambda>r. fle (nearest_dist r) t2) (rows (turbines hi)))\<rparr>"
    and prh: "printed hi = summary_of (close_turbines hi)"
    by (rule run_ok[OF assms(1,2,3)])
  have same: "turbines lo = turbines hi"
    by (simp only: tsl tsh csl csh)
  have "length (filter (\<lambda>r. fle (nearest_dist r) t1) (rows (turbines hi)))
          \<le> length (filter (\<lambda>r. fle (nearest_dist r) t2) (rows (turbines hi)))"
    using assms(4) by (intro length_filter_mono) (auto simp: fle_def split: option.splits)
  then have "count (printed lo) \<le> count (printed hi)"
    by (simp add: prl prh summary_of_def cll clh same)
  with rl rh show "\<exists>lo hi. run t1 nb tf cen T C = Inr lo \<and> run t2 nb tf cen T C = Inr hi
            \<and> count (printed lo) \<le> count (printed hi)"
    by blast
next
  obtain lo where rl: "run thr n1 tf cen T C = Inr lo"
    and csl: "cities lo = with_centroid cen
           \<lparr>crs = Some 3857,
            rows = map (\<lambda>r. r\<lparr>geometry := tf_polygon tf b 3857 (geometry r)\<rparr>) (rows (explode C))\<rparr>"
    and tsl: "turbines lo = with_nearest_dist (cities lo)
           \<lparr>crs = Some 3857,
            rows = map (\<lambda>r. r\<lparr>geometry := tf a 3857 (geometry r)\<rparr>) (rows (explode T))\<rparr>"
    and cll: "close_turbines lo =
           \<lparr>crs = Some 4326,
            rows = map (\<lambda>r. r\<lparr>geometry := tf 3857 4326 (geometry r)\<rparr>)
                       (filter (\<lambda>r. fle (nearest_dist r) thr) (rows (turbines lo)))\<rparr>"
    and fml: "folium_map lo = markers n1 (close_turbines lo)"
    by (rule run_ok[OF assms(1,2,3)])
  obtain hi where rh: "run thr n2 tf cen T C = Inr hi"
    and csh: "cities hi = with_centroid cen
           \<lparr>crs = Some 3857,
            rows = map (\<lambda>r. r\<lparr>geometry := tf_polygon tf b 3857 (geometry r)\<rparr>) (rows (explode C))\<rparr>"
    and tsh: "turbines hi = with_nearest_dist (cities hi)
           \<lparr>crs = Some 3857,
            rows = map (\<lambda>r. r\<lparr>geometry := tf a 3857 (geometry r)\<rparr>) (rows (explode T))\<rparr>"
    and clh: "close_turbines hi =
           \<lparr>crs = Some 4326,
            rows = map (\<lambda>r. r\<lparr>geometry := tf 3857 4326 (geometry r)\<rparr>)
                       (filter (\<lambda>r. fle (nearest_dist r) thr) (rows (turbines hi)))\<rparr>"
    and fmh: "folium_map hi = markers n2 (close_turbines hi)"
    by (rule run_ok[OF assms(1,2,3)])
  have "turbines lo = turbines hi"
    by (simp only: tsl tsh csl csh)
  then have same: "close_turbines lo = close_turbines hi"
    by (simp only: cll clh)
  have "length (filter (\<lambda>r. flt (nearest_dist r) n1) (rows (close_turbines hi)))
          \<le> length (filter (\<lambda>r. flt (nearest_dist r) n2) (rows (close_turbines hi)))"
    using assms(5) by (intro length_filter_mono) (auto simp: flt_def split: option.splits)
  then have "length (filter (\<lambda>m. color m = Red) (folium_map lo))
                \<le> length (filter (\<lambda>m. color m = Red) (folium_map hi))"
    by (simp only: fml fmh red_markers same)
  with rl rh show "\<exists>lo hi. run thr n1 tf cen T C = Inr lo \<and> run thr n2 tf cen T C = Inr hi
            \<and> length (filter (\<lambda>m. color m = Red) (folium_map lo))
                \<le> length (filter (\<lambda>m. color m = Red) (folium_map hi))"
    by blast
qed

theorem C7_witness:
  "crs ex_turbines = Some 4326 \<and> crs ex_cities = Some 4326 \<and> all_parts ex_turbines \<noteq> []
   \<and> (2::real) \<le> 5 \<and> (2::real) \<le> 6
   \<and> (\<exists>lo hi. run 2 2 scale_tf ring_mean ex_turbines ex_cities = Inr lo
          \<and> run 5 2 scale_tf ring_mean ex_turbines ex_cities = Inr hi
          \<and> count (printed lo) \<le> count (printed hi))
   \<and> (\<exists>lo hi. run 5 2 scale_tf ring_mean ex_turbines ex_cities = Inr lo
          \<and> run 5 6 scale_tf ring_mean ex_turbines ex_cities = Inr hi
          \<and> length (filter (\<lambda>m. color m = Red) (folium_map lo))
              \<le> length (filter (\<lambda>m. color m = Red) (folium_map hi)))"
proof -
  have t: "(2::real) \<le> 5" and n: "(2::real) \<le> 6"
    by simp_all
  note mono = C7_counts_monotone[OF ex_crs(1) ex_crs(2) ex_points t n, of 2 scale_tf ring_mean 5]
  show ?thesis
    by (intro conjI) (fact ex_crs ex_points t n mono[THEN conjunct1] mono[THEN conjunct2])+
qed





text \<open>
  C10. With at least one input point, reprojecting the retained rows to EPSG:4326
  changes their geometry only: the attributes and the distance of each retained row are
  those of the planar frame, and so are the marker colours and popups derived from them.
\<close>

theorem C10_reprojection_keeps_distance:
  assumes "crs T = Some a" and "crs C = Some b" and "all_parts T \<noteq> []"
  shows "\<exists>st planar. run thr nb tf cen T C = Inr st
           \<and> planar = filter (\<lambda>r. fle (nearest_dist r) thr) (rows (turbines st))
           \<and> crs (close_turbines st) = Some 4326
           \<and> map geometry (rows (close_turbines st)) = map (\<lambda>r. tf 3857 4326 (geometry r)) planar
           \<and> map attrs (rows (close_turbines st)) = map attrs planar
           \<and> map nearest_dist (rows (close_turbines st)) = map nearest_dist planar
           \<and> map color (folium_map st) = map (\<lambda>r. marker_color nb (nearest_dist r)) planar
           \<and> map popup (folium_map st) = map nearest_dist planar"
proof -
  obtain st where run: "run thr nb tf cen T C = Inr st"
    and cl: "close_turbines st =
           \<lparr>crs = Some 4326,
            rows = map (\<lambda>r. r\<lparr>geometry := tf 3857 4326 (geometry r)\<rparr>)
                       (filter (\<lambda>r. fle (nearest_dist r) thr) (rows (turbines st)))\<rparr>"
    and fm: "folium_map st = markers nb (close_turbines st)"
    by (rule run_ok[OF assms])
  define planar where "planar = filter (\<lambda>r. fle (nearest_dist r) thr) (rows (turbines st))"
  have rows: "rows (close_turbines st) = map (\<lambda>r. r\<lparr>geometry := tf 3857 4326 (geometry r)\<rparr>) planar"
    by (simp add: cl planar_def)
  have c: "crs (close_turbines st) = Some 4326"
    by (simp add: cl)
  have g: "map geometry (rows (close_turbines st)) = map (\<lambda>r. tf 3857 4326 (geometry r)) planar"
    by (simp add: rows comp_def)
  have at: "map attrs (rows (close_turbines st)) = map attrs planar"
    by (simp add: rows comp_def)
  have nd: "map nearest_dist (rows (close_turbines st)) = map nearest_dist planar"
    by (simp add: rows comp_def)
  have col: "map color (folium_map st) = map (\<lambda>r. marker_color nb (nearest_dist r)) planar"
    by (simp add: fm markers_def rows comp_def)
  have pop: "map popup (folium_map st) = map nearest_dist planar"
    by (simp add: fm markers_def rows comp_def)
  from run planar_def c g at nd col pop show ?thesis
    by blast
qed

theorem C10_witness:
  "crs ex_turbines = Some 4326 \<and> crs ex_cities = Some 4326 \<and> all_parts ex_turbines \<noteq> []
   \<and> (\<exists>st. run 5 2 scale_tf ring_mean ex_turbines ex_cities = Inr st
          \<and> map geometry (rows (turbines st)) = [(1, 5001), (1, 1001), (1, 2001), (1, 7001)]
          \<and> map nearest_dist (rows (turbines st)) = [Some 5, Some 1, Some 2, Some 7]
          \<and> crs (close_turbines st) = Some 4326
          \<and> map geometry (rows (close_turbines st))
              = [(1 / 1000, 5001 / 1000), (1 / 1000, 1001 / 1000), (1 / 1000, 2001 / 1000)]
          \<and> map attrs (rows (close_turbines st)) = [''A'', ''B'', ''C'']
          \<and> map nearest_dist (rows (close_turbines st)) = [Some 5, Some 1, Some 2]
          \<and> map color (folium_map st) = [Orange, Red, Orange])"
proof -
  from C10_reprojection_keeps_distance[OF ex_crs(1) ex_crs(2) ex_points, of 5 2 scale_tf ring_mean]
  obtain st planar where run: "run 5 2 scale_tf ring_mean ex_turbines ex_cities = Inr st"
    and planar: "planar = filter (\<lambda>r. fle (nearest_dist r) 5) (rows (turbines st))"
    and c: "crs (close_turbines st) = Some 4326"
    and geo: "map geometry (rows (close_turbines st)) = map (\<lambda>r. scale_tf 3857 4326 (geometry r)) planar"
    and att: "map attrs (rows (close_turbines st)) = map attrs planar"
    and nd: "map nearest_dist (rows (close_turbines st)) = map nearest_dist planar"
    and col: "map color (folium_map st) = map (\<lambda>r. marker_color 2 (nearest_dist r)) planar"
    by blast
  have g0: "map geometry (rows (turbines st)) = [(1, 5001), (1, 1001), (1, 2001), (1, 7001)]"
    by (simp add: ex_turbines_rows[OF run])
  have d0: "map nearest_dist (rows (turbines st)) = [Some 5, Some 1, Some 2, Some 7]"
    by (simp add: ex_turbines_rows[OF run])
  have kept: "planar =
           [\<lparr>attrs = ''A'', geometry = (1, 5001), nearest_dist = Some 5\<rparr>,
            \<lparr>attrs = ''B'', geometry = (1, 1001), nearest_dist = Some 1\<rparr>,
            \<lparr>attrs = ''C'', geometry = (1, 2001), nearest_dist = Some 2\<rparr>]"
    by (simp add: planar ex_turbines_rows[OF run] fle_def)
  have g: "map geometry (rows (close_turbines st))
              = [(1 / 1000, 5001 / 1000), (1 / 1000, 1001 / 1000), (1 / 1000, 2001 / 1000)]"
    by (simp add: geo kept scale_tf_def)
  have a: "map attrs (rows (close_turbines st)) = [''A'', ''B'', ''C'']"
    by (simp add: att kept)
  have d: "map nearest_dist (rows (close_turbines st)) = [Some 5, Some 1, Some 2]"
    by (simp add: nd kept)
  have k: "map color (folium_map st) = [Orange, Red, Orange]"
    by (simp add: col kept marker_color_def flt_def)
  show ?thesis
    by (intro conjI exI[of _ st]) (fact ex_crs ex_points run g0 d0 c g a d k)+
qed

end
